theory Spec2Isabelle
  imports Main "HOL-Library.Sublist"
begin

section \<open>JavaScript values and helpers\<close>

text \<open>
  A value that can be thrown (or a promise rejected with): an instance of \<open>Error\<close>
  with its \<open>message\<close>, or any other value, of which only its \<open>message\<close> property is
  kept (\<open>None\<close> when it has none).
\<close>

datatype thrown = Error string | NonError "string option"

text \<open>
  Truthiness of a value that is \<open>undefined\<close>/\<open>null\<close> (\<open>None\<close>) or a string: the
  empty string is falsy, as in \<open>!process.env.API_KEY\<close>, \<open>part.text\<close> and
  \<open>if (originalImageUrl)\<close>.
\<close>

definition truthy :: "string option \<Rightarrow> bool" where
  "truthy v = (case v of None \<Rightarrow> False | Some s \<Rightarrow> s \<noteq> [])"

text \<open>\<open>String.prototype.split\<close> with a one-character separator.\<close>

fun split :: "'a \<Rightarrow> 'a list \<Rightarrow> 'a list list" where
  "split sep [] = [[]]"
| "split sep (c # cs) =
     (if c = sep then [] # split sep cs
      else (case split sep cs of
              [] \<Rightarrow> [[c]]
            | w # ws \<Rightarrow> (c # w) # ws))"

text \<open>Array indexing \<open>xs[i]\<close>: \<open>undefined\<close> out of range.\<close>

definition index :: "'a list \<Rightarrow> nat \<Rightarrow> 'a option" where
  "index xs i = (if i < length xs then Some (xs ! i) else None)"

text \<open>
  \<open>lastIndexOf\<close> with a one-character needle: the position of its last occurrence,
  \<open>-1\<close> when there is none.
\<close>

fun lastIndexOf :: "'a \<Rightarrow> 'a list \<Rightarrow> int" where
  "lastIndexOf c [] = -1"
| "lastIndexOf c (x # xs) =
     (let r = lastIndexOf c xs
      in if 0 \<le> r then r + 1 else if x = c then 0 else -1)"

text \<open>
  \<open>substring(start, end)\<close>: both arguments are clamped to \<open>0..length\<close> and swapped
  when the first exceeds the second.
\<close>

definition substring :: "'a list \<Rightarrow> int \<Rightarrow> int \<Rightarrow> 'a list" where
  "substring s start end' =
     (let n = int (length s);
          a = max 0 (min start n);
          b = max 0 (min end' n);
          lo = min a b;
          hi = max a b
      in take (nat (hi - lo)) (drop (nat lo) s))"

text \<open>\<open>v || d\<close> for a value that is a string or \<open>undefined\<close>: \<open>d\<close> when \<open>v\<close> is falsy.\<close>

definition orElse :: "string option \<Rightarrow> string \<Rightarrow> string" where
  "orElse v d = (case v of None \<Rightarrow> d | Some s \<Rightarrow> (if s \<noteq> [] then s else d))"

text \<open>A template literal's \<open>${v}\<close> for a value that is a string or \<open>undefined\<close>.\<close>

definition interpolate :: "string option \<Rightarrow> string" where
  "interpolate v = (case v of None \<Rightarrow> ''undefined'' | Some s \<Rightarrow> s)"

section \<open>The API client (services/geminiService.ts)\<close>

text \<open>
  A browser \<open>File\<close>: its \<open>name\<close>, its media \<open>type\<close>, and what
  \<open>FileReader.readAsDataURL\<close> leaves in \<open>reader.result\<close> for it (a data URL, or
  \<open>null\<close> when reading fails).
\<close>

record File =
  name :: string
  type :: string
  readAsDataURL :: "string option"

text \<open>
  The parts of a request and of a response, as the SDK types them: every field is
  optional.
\<close>

record blob =
  data :: "string option"
  mimeType :: "string option"

record part =
  inlineData :: "blob option"
  text' :: "string option"

record content =
  parts :: "part list option"

record candidate =
  content :: "content option"

record response =
  candidates :: "candidate list option"

datatype modality = IMAGE | TEXT

record request =
  model :: string
  contents :: content
  responseModalities :: "modality list"

text \<open>\<open>process.env\<close>, read at call time.\<close>

record env =
  API_KEY :: "string option"

text \<open>What the client does to the outside world, in order.\<close>

datatype client_event = ReadFile File | NetworkRequest request

text \<open>
  \<open>fileToGenerativePart\<close>: the data URL is split at commas and the second piece is the
  payload; a result that is not a string gives the empty payload.
\<close>

definition fileToGenerativePart :: "File \<Rightarrow> part" where
  "fileToGenerativePart f =
     \<lparr>inlineData = Some
        \<lparr>data = (case readAsDataURL f of
                   Some r \<Rightarrow> index (split CHR '','' r) 1
                 | None \<Rightarrow> Some ''''),
         mimeType = Some (type f)\<rparr>,
      text' = None\<rparr>"

text \<open>The one request the client sends for a file.\<close>

definition generateContentRequest :: "File \<Rightarrow> request" where
  "generateContentRequest imageFile =
     \<lparr>model = ''gemini-2.5-flash-image-preview'',
      contents = \<lparr>parts = Some
        [fileToGenerativePart imageFile,
         \<lparr>inlineData = None,
          text' = Some ''Remove the background of this image. Make the background transparent. Output a PNG file.''\<rparr>]\<rparr>,
      responseModalities = [IMAGE, TEXT]\<rparr>"

text \<open>
  The optional chain \<open>response.candidates?.[0]?.content?.parts\<close>: \<open>undefined\<close> as soon
  as one link is missing.
\<close>

definition firstCandidateParts :: "response \<Rightarrow> part list option" where
  "firstCandidateParts r =
     (case candidates r of
        None \<Rightarrow> None
      | Some cs \<Rightarrow>
          (case cs of
             [] \<Rightarrow> None
           | c # _ \<Rightarrow>
               (case content c of
                  None \<Rightarrow> None
                | Some ct \<Rightarrow> parts ct)))"

text \<open>\<open>...?.find(part => part.inlineData)\<close>: an object is truthy whenever present.\<close>

definition imageResponsePart :: "response \<Rightarrow> part option" where
  "imageResponsePart r =
     (case firstCandidateParts r of
        None \<Rightarrow> None
      | Some ps \<Rightarrow> find (\<lambda>p. inlineData p \<noteq> None) ps)"

text \<open>\<open>...?.find(part => part.text)\<close>: a string is truthy when it is not empty.\<close>

definition textResponsePart :: "response \<Rightarrow> part option" where
  "textResponsePart r =
     (case firstCandidateParts r of
        None \<Rightarrow> None
      | Some ps \<Rightarrow> find (\<lambda>p. truthy (text' p)) ps)"

text \<open>
  The parts those two searches run over: the first candidate's, and none when the
  chain is \<open>undefined\<close>.
\<close>

definition scannedParts :: "response \<Rightarrow> part list" where
  "scannedParts r = (case firstCandidateParts r of None \<Rightarrow> [] | Some ps \<Rightarrow> ps)"

text \<open>
  The tail of \<open>removeBackground\<close> after the response has arrived: return the image
  part's data, or throw one of two errors.
\<close>

definition textOrFailure :: "response \<Rightarrow> thrown + string option" where
  "textOrFailure r =
     (case textResponsePart r of
        Some p \<Rightarrow>
          (if truthy (text' p)
           then Inl (Error (''API returned a text response instead of an image: '' @ interpolate (text' p)))
           else Inl (Error ''Failed to process the image. The API did not return an image.''))
      | None \<Rightarrow> Inl (Error ''Failed to process the image. The API did not return an image.''))"

definition handleResponse :: "response \<Rightarrow> thrown + string option" where
  "handleResponse r =
     (case imageResponsePart r of
        Some p \<Rightarrow>
          (case inlineData p of
             Some b \<Rightarrow> Inr (data b)
           | None \<Rightarrow> textOrFailure r)
      | None \<Rightarrow> textOrFailure r)"

text \<open>
  \<open>removeBackground\<close>. The generation service is a parameter: for a request it either
  rejects with a thrown value or resolves with a response. The result is the promise's
  outcome (\<open>Inl\<close> a rejection, \<open>Inr\<close> the resolved value) and the events the call caused.
\<close>

definition removeBackground ::
  "env \<Rightarrow> (request \<Rightarrow> thrown + response) \<Rightarrow> File \<Rightarrow> (thrown + string option) \<times> client_event list" where
  "removeBackground e generateContent imageFile =
     (if \<not> truthy (API_KEY e)
      then (Inl (Error ''API_KEY environment variable is not set.''), [])
      else
        (case generateContent (generateContentRequest imageFile) of
           Inl err \<Rightarrow>
             (Inl err, [ReadFile imageFile, NetworkRequest (generateContentRequest imageFile)])
         | Inr r \<Rightarrow>
             (handleResponse r, [ReadFile imageFile, NetworkRequest (generateContentRequest imageFile)])))"

section \<open>The view/state controller (App component)\<close>

datatype AppState = initial | loading | result | error

text \<open>The five \<open>useState\<close> cells of the component.\<close>

record session =
  originalFile :: "File option"
  originalImageUrl :: "string option"
  processedImageUrl :: "string option"
  appState :: AppState
  errorMessage :: string

text \<open>The cells' initial values.\<close>

definition initialSession :: session where
  "initialSession =
     \<lparr>originalFile = None, originalImageUrl = None, processedImageUrl = None,
      appState = initial, errorMessage = ''''\<rparr>"

text \<open>
  A handler is the list of the statements it executes, in source order: the five
  setters, the two object-URL calls, the call of the API client and the console log.
  \<open>CreateObjectURL f u\<close> records that \<open>URL.createObjectURL(f)\<close> returned \<open>u\<close>.
\<close>

datatype effect =
    SetOriginalFile "File option"
  | SetOriginalImageUrl "string option"
  | SetProcessedImageUrl "string option"
  | SetAppState AppState
  | SetErrorMessage string
  | CreateObjectURL File string
  | RevokeObjectURL string
  | CallRemoveBackground File
  | ConsoleError thrown

text \<open>
  What a statement does to the session: only the setters change it. (The component's
  one \<open>useEffect\<close> hook only revokes an object URL, so it changes no cell either.)
\<close>

fun perform :: "effect \<Rightarrow> session \<Rightarrow> session" where
  "perform (SetOriginalFile v) s = s\<lparr>originalFile := v\<rparr>"
| "perform (SetOriginalImageUrl v) s = s\<lparr>originalImageUrl := v\<rparr>"
| "perform (SetProcessedImageUrl v) s = s\<lparr>processedImageUrl := v\<rparr>"
| "perform (SetAppState v) s = s\<lparr>appState := v\<rparr>"
| "perform (SetErrorMessage v) s = s\<lparr>errorMessage := v\<rparr>"
| "perform (CreateObjectURL f u) s = s"
| "perform (RevokeObjectURL u) s = s"
| "perform (CallRemoveBackground f) s = s"
| "perform (ConsoleError err) s = s"

text \<open>The session after a list of statements, and every session on the way.\<close>

definition run :: "effect list \<Rightarrow> session \<Rightarrow> session" where
  "run effs s = fold perform effs s"

fun trajectory :: "session \<Rightarrow> effect list \<Rightarrow> session list" where
  "trajectory s [] = [s]"
| "trajectory s (e # es) = s # trajectory (perform e s) es"

text \<open>
  \<open>processFile\<close>, split at its \<open>await\<close>: the statements up to and including the call of
  \<open>removeBackground(file)\<close>, then the \<open>try\<close> continuation or the \<open>catch\<close> block, chosen by
  the outcome of the call.
\<close>

definition processFile_begin :: "File \<Rightarrow> string \<Rightarrow> effect list" where
  "processFile_begin f url =
     [SetAppState loading,
      SetOriginalFile (Some f),
      SetProcessedImageUrl None,
      SetErrorMessage '''',
      CreateObjectURL f url,
      SetOriginalImageUrl (Some url),
      CallRemoveBackground f]"

definition processFile_settled :: "thrown + string option \<Rightarrow> effect list" where
  "processFile_settled outcome =
     (case outcome of
        Inr resultBase64 \<Rightarrow>
          [SetProcessedImageUrl (Some (''data:image/png;base64,'' @ interpolate resultBase64)),
           SetAppState result]
      | Inl err \<Rightarrow>
          [ConsoleError err,
           SetErrorMessage
             (case err of
                Error m \<Rightarrow> m
              | NonError v \<Rightarrow> ''An unknown error occurred. Please try again.''),
           SetAppState error])"

definition processFile ::
  "env \<Rightarrow> (request \<Rightarrow> thrown + response) \<Rightarrow> File \<Rightarrow> string \<Rightarrow> effect list" where
  "processFile e generateContent f url =
     processFile_begin f url
       @ processFile_settled (fst (removeBackground e generateContent f))"

text \<open>\<open>handleReset\<close>, reading \<open>originalImageUrl\<close> from the session it was rendered in.\<close>

definition handleReset :: "session \<Rightarrow> effect list" where
  "handleReset s =
     [SetOriginalFile None]
       @ (case originalImageUrl s of
            Some u \<Rightarrow> (if u \<noteq> [] then [RevokeObjectURL u] else [])
          | None \<Rightarrow> [])
       @ [SetOriginalImageUrl None,
          SetProcessedImageUrl None,
          SetErrorMessage '''',
          SetAppState initial]"

text \<open>
  \<open>handleFileChange\<close> and \<open>handleDrop\<close>: the file they pass to \<open>processFile\<close>, if any.
  It is the first file of the event; a dropped file only when its media type starts
  with \<open>image/\<close>.
\<close>

definition handleFileChange :: "File option \<Rightarrow> File option" where
  "handleFileChange files0 = files0"

definition handleDrop :: "File option \<Rightarrow> File option" where
  "handleDrop files0 =
     (case files0 of
        Some f \<Rightarrow> (if prefix ''image/'' (type f) then Some f else None)
      | None \<Rightarrow> None)"

text \<open>\<open>renderContent\<close>: the view that is mounted, and with it the handlers a user can reach.\<close>

datatype view = UploadView | LoadingView | ResultView | ErrorView

definition renderContent :: "session \<Rightarrow> view" where
  "renderContent s =
     (case appState s of
        loading \<Rightarrow> LoadingView
      | result \<Rightarrow> ResultView
      | error \<Rightarrow> ErrorView
      | initial \<Rightarrow> UploadView)"

text \<open>
  The running component: its session and the file whose \<open>removeBackground\<close> call is in
  flight. An event is a file chosen or dropped (with the object URL the browser will
  hand out), a click on a reset button, or the settling of the call in flight (with
  the environment and the service's behaviour). An event whose handler is not mounted
  changes nothing.
\<close>

record config =
  sess :: session
  pending :: "File option"

datatype event =
    FileChange "File option" string
  | Drop "File option" string
  | ClickReset
  | Settle env "request \<Rightarrow> thrown + response"

definition initialConfig :: config where
  "initialConfig = \<lparr>sess = initialSession, pending = None\<rparr>"

definition submit :: "File option \<Rightarrow> string \<Rightarrow> config \<Rightarrow> config" where
  "submit chosen url c =
     (case chosen of
        Some f \<Rightarrow> \<lparr>sess = run (processFile_begin f url) (sess c), pending = Some f\<rparr>
      | None \<Rightarrow> c)"

fun handle :: "config \<Rightarrow> event \<Rightarrow> config" where
  "handle c (FileChange files0 url) =
     (if renderContent (sess c) = UploadView then submit (handleFileChange files0) url c else c)"
| "handle c (Drop files0 url) =
     (if renderContent (sess c) = UploadView then submit (handleDrop files0) url c else c)"
| "handle c ClickReset =
     (if renderContent (sess c) = ResultView \<or> renderContent (sess c) = ErrorView
      then c\<lparr>sess := run (handleReset (sess c)) (sess c)\<rparr>
      else c)"
| "handle c (Settle e generateContent) =
     (case pending c of
        Some f \<Rightarrow>
          \<lparr>sess = run (processFile_settled (fst (removeBackground e generateContent f))) (sess c),
           pending = None\<rparr>
      | None \<Rightarrow> c)"

definition execute :: "event list \<Rightarrow> config" where
  "execute evs = foldl handle initialConfig evs"

text \<open>
  What holds of the session and the call in flight between events: a call is in flight
  only while loading; while loading the file and its preview URL are there and no
  processed image is; a result has all three; an error has no processed image.
\<close>

definition consistent :: "config \<Rightarrow> bool" where
  "consistent c =
     ((pending c \<noteq> None \<longrightarrow> appState (sess c) = loading)
      \<and> (appState (sess c) = loading \<longrightarrow>
           originalFile (sess c) \<noteq> None \<and> originalImageUrl (sess c) \<noteq> None
           \<and> processedImageUrl (sess c) = None)
      \<and> (appState (sess c) = result \<longrightarrow>
           originalFile (sess c) \<noteq> None \<and> originalImageUrl (sess c) \<noteq> None
           \<and> processedImageUrl (sess c) \<noteq> None)
      \<and> (appState (sess c) = error \<longrightarrow> processedImageUrl (sess c) = None))"

text \<open>
  \<open>downloadImage\<close> of the result view: the link it clicks. \<open>fileName\<close> is
  \<open>originalFile?.name\<close>.
\<close>

record link =
  href :: string
  download :: string

definition fileName :: "session \<Rightarrow> string option" where
  "fileName s = (case originalFile s of None \<Rightarrow> None | Some f \<Rightarrow> Some (name f))"

definition downloadImage :: "string \<Rightarrow> string option \<Rightarrow> link" where
  "downloadImage processed fname =
     (let baseName =
            orElse (case fname of
                      None \<Rightarrow> None
                    | Some n \<Rightarrow> Some (substring n 0 (lastIndexOf CHR ''.'' n)))
                   ''image''
      in \<lparr>href = processed, download = baseName @ ''_no_bg.png''\<rparr>)"

section \<open>Sample inputs\<close>

definition sampleFile :: File where
  "sampleFile =
     \<lparr>name = ''photo.jpg'', type = ''image/jpeg'',
      readAsDataURL = Some ''data:image/jpeg;base64,QUJD''\<rparr>"

definition noKey :: env where
  "noKey = \<lparr>API_KEY = None\<rparr>"

definition withKey :: env where
  "withKey = \<lparr>API_KEY = Some ''secret''\<rparr>"

definition resolveWith :: "response \<Rightarrow> request \<Rightarrow> thrown + response" where
  "resolveWith r req = Inr r"

definition respond :: "part list \<Rightarrow> request \<Rightarrow> thrown + response" where
  "respond ps req = Inr \<lparr>candidates = Some [\<lparr>content = Some \<lparr>parts = Some ps\<rparr>\<rparr>]\<rparr>"

definition rejectWith :: "thrown \<Rightarrow> request \<Rightarrow> thrown + response" where
  "rejectWith err req = Inl err"

definition imagePart :: "string \<Rightarrow> part" where
  "imagePart d = \<lparr>inlineData = Some \<lparr>data = Some d, mimeType = Some ''image/png''\<rparr>, text' = None\<rparr>"

definition textPart :: "string \<Rightarrow> part" where
  "textPart t = \<lparr>inlineData = None, text' = Some t\<rparr>"

section \<open>Properties of the API client\<close>

text \<open>
  C2. When \<open>API_KEY\<close> is absent from the environment, every call of
  \<open>removeBackground\<close> rejects with an error whose message names \<open>API_KEY\<close>, and the
  call causes no event at all: in particular no network request is issued.
\<close>

theorem removeBackground_missing_key:
  assumes "API_KEY e = None"
  shows "fst (removeBackground e generateContent imageFile)
           = Inl (Error ''API_KEY environment variable is not set.'')
         \<and> sublist ''API_KEY'' ''API_KEY environment variable is not set.''
         \<and> snd (removeBackground e generateContent imageFile) = []"
proof -
  have "\<not> truthy (API_KEY e)"
    using assms by (simp add: truthy_def)
  then have "removeBackground e generateContent imageFile
               = (Inl (Error ''API_KEY environment variable is not set.''), [])"
    by (simp add: removeBackground_def)
  moreover have "prefix ''API_KEY'' ''API_KEY environment variable is not set.''"
    by simp
  ultimately show ?thesis
    by (simp add: prefix_imp_sublist)
qed

theorem removeBackground_missing_key_witness:
  "API_KEY noKey = None
   \<and> fst (removeBackground noKey (respond [imagePart ''AAA'']) sampleFile)
       = Inl (Error ''API_KEY environment variable is not set.'')
   \<and> snd (removeBackground noKey (respond [imagePart ''AAA'']) sampleFile) = []"
proof -
  have h: "API_KEY noKey = None"
    by (simp add: noKey_def)
  show ?thesis
    using h removeBackground_missing_key [OF h, of "respond [imagePart ''AAA'']" sampleFile]
    by simp
qed

subsection \<open>Reading the response\<close>

lemma find_first:
  assumes "ps = pre @ p # post" and "\<forall>q\<in>set pre. \<not> P q" and "P p"
  shows "find P ps = Some p"
  using assms by (induction pre arbitrary: ps) auto

lemma find_nowhere:
  assumes "\<forall>q\<in>set ps. \<not> P q"
  shows "find P ps = None"
  using assms by (simp add: find_None_iff)

lemma imageResponsePart_scanned:
  "imageResponsePart r = find (\<lambda>p. inlineData p \<noteq> None) (scannedParts r)"
  by (simp add: imageResponsePart_def scannedParts_def split: option.splits)

lemma textResponsePart_scanned:
  "textResponsePart r = find (\<lambda>p. truthy (text' p)) (scannedParts r)"
  by (simp add: textResponsePart_def scannedParts_def split: option.splits)

lemma removeBackground_with_response:
  assumes "truthy (API_KEY e)"
    and "generateContent (generateContentRequest imageFile) = Inr r"
  shows "fst (removeBackground e generateContent imageFile) = handleResponse r"
  using assms by (simp add: removeBackground_def)

lemma handleResponse_image:
  assumes "scannedParts r = pre @ p # post"
    and "\<forall>q\<in>set pre. inlineData q = None"
    and "inlineData p = Some b"
  shows "handleResponse r = Inr (data b)"
proof -
  have "find (\<lambda>p. inlineData p \<noteq> None) (scannedParts r) = Some p"
    using assms by (intro find_first [where pre = pre and post = post]) auto
  then show ?thesis
    using assms(3) by (simp add: handleResponse_def imageResponsePart_scanned)
qed

lemma handleResponse_no_image:
  assumes "\<forall>q\<in>set (scannedParts r). inlineData q = None"
  shows "handleResponse r = textOrFailure r"
proof -
  have "find (\<lambda>p. inlineData p \<noteq> None) (scannedParts r) = None"
    using assms by (intro find_nowhere) simp
  then show ?thesis
    by (simp add: handleResponse_def imageResponsePart_scanned)
qed

lemma textOrFailure_text:
  assumes "scannedParts r = pre @ p # post"
    and "\<forall>q\<in>set pre. \<not> truthy (text' q)"
    and "text' p = Some t" and "t \<noteq> []"
  shows "textOrFailure r
           = Inl (Error (''API returned a text response instead of an image: '' @ t))"
proof -
  have "truthy (text' p)"
    using assms(3,4) by (simp add: truthy_def)
  moreover from this have "find (\<lambda>p. truthy (text' p)) (scannedParts r) = Some p"
    using assms(1,2) by (intro find_first [where pre = pre and post = post]) auto
  ultimately show ?thesis
    using assms(3) by (simp add: textOrFailure_def textResponsePart_scanned interpolate_def)
qed

lemma textOrFailure_nothing:
  assumes "\<forall>q\<in>set (scannedParts r). \<not> truthy (text' q)"
  shows "textOrFailure r
           = Inl (Error ''Failed to process the image. The API did not return an image.'')"
proof -
  have "find (\<lambda>p. truthy (text' p)) (scannedParts r) = None"
    using assms by (intro find_nowhere) simp
  then show ?thesis
    by (simp add: textOrFailure_def textResponsePart_scanned)
qed

lemma scannedParts_chain:
  assumes "candidates r = Some (c # cs)" and "content c = Some ct" and "parts ct = Some ps"
  shows "scannedParts r = ps"
  using assms by (simp add: scannedParts_def firstCandidateParts_def)

lemma scannedParts_missing:
  assumes "candidates r = None \<or> candidates r = Some []
           \<or> (\<exists>c cs. candidates r = Some (c # cs)
                 \<and> (content c = None \<or> (\<exists>ct. content c = Some ct \<and> parts ct = None)))"
  shows "scannedParts r = []"
  using assms by (auto simp: scannedParts_def firstCandidateParts_def)

lemma not_truthy: "(\<not> truthy v) = (v = None \<or> v = Some [])"
  by (cases v) (simp_all add: truthy_def)

text \<open>
  C1. Whatever the service responds. When the first candidate's content has parts: if
  one of them has inline data, the call resolves with the data of the first such
  part; if none has inline data and one has a non-empty text, the call rejects with
  an error whose message ends with the text of the first such part, verbatim; if none
  has inline data or a non-empty text, it rejects with the generic error that no
  image was returned. When the response has no candidates, no first candidate, no
  content or no parts, it rejects with that generic error too.
\<close>

theorem removeBackground_response_cases:
  assumes key: "truthy (API_KEY e)"
    and resp: "generateContent (generateContentRequest imageFile) = Inr r"
  shows
    "(\<forall>c cs ct ps pre p post b.
        candidates r = Some (c # cs) \<and> content c = Some ct \<and> parts ct = Some ps
          \<and> ps = pre @ p # post \<and> (\<forall>q\<in>set pre. inlineData q = None)
          \<and> inlineData p = Some b
        \<longrightarrow> fst (removeBackground e generateContent imageFile) = Inr (data b))
     \<and> (\<forall>c cs ct ps pre p post t.
        candidates r = Some (c # cs) \<and> content c = Some ct \<and> parts ct = Some ps
          \<and> (\<forall>q\<in>set ps. inlineData q = None)
          \<and> ps = pre @ p # post \<and> (\<forall>q\<in>set pre. text' q = None \<or> text' q = Some [])
          \<and> text' p = Some t \<and> t \<noteq> []
        \<longrightarrow> fst (removeBackground e generateContent imageFile)
              = Inl (Error (''API returned a text response instead of an image: '' @ t)))
     \<and> (\<forall>c cs ct ps.
        candidates r = Some (c # cs) \<and> content c = Some ct \<and> parts ct = Some ps
          \<and> (\<forall>q\<in>set ps. inlineData q = None \<and> (text' q = None \<or> text' q = Some []))
        \<longrightarrow> fst (removeBackground e generateContent imageFile)
              = Inl (Error ''Failed to process the image. The API did not return an image.''))
     \<and> (candidates r = None \<or> candidates r = Some []
          \<or> (\<exists>c cs. candidates r = Some (c # cs)
                \<and> (content c = None \<or> (\<exists>ct. content c = Some ct \<and> parts ct = None)))
        \<longrightarrow> fst (removeBackground e generateContent imageFile)
              = Inl (Error ''Failed to process the image. The API did not return an image.''))"
proof -
  have out: "fst (removeBackground e generateContent imageFile) = handleResponse r"
    using key resp by (rule removeBackground_with_response)
  show ?thesis
  proof (intro conjI allI impI)
    fix c cs ct ps pre p post b
    assume a: "candidates r = Some (c # cs) \<and> content c = Some ct \<and> parts ct = Some ps
          \<and> ps = pre @ p # post \<and> (\<forall>q\<in>set pre. inlineData q = None)
          \<and> inlineData p = Some b"
    then have "scannedParts r = pre @ p # post"
      using scannedParts_chain [of r c cs ct ps] by simp
    then show "fst (removeBackground e generateContent imageFile) = Inr (data b)"
      using a handleResponse_image [of r pre p post b] out by simp
  next
    fix c cs ct ps pre p post t
    assume a: "candidates r = Some (c # cs) \<and> content c = Some ct \<and> parts ct = Some ps
          \<and> (\<forall>q\<in>set ps. inlineData q = None)
          \<and> ps = pre @ p # post \<and> (\<forall>q\<in>set pre. text' q = None \<or> text' q = Some [])
          \<and> text' p = Some t \<and> t \<noteq> []"
    then have sp: "scannedParts r = ps"
      using scannedParts_chain [of r c cs ct ps] by simp
    have "\<forall>q\<in>set (scannedParts r). inlineData q = None"
      using a sp by simp
    then have "handleResponse r = textOrFailure r"
      by (rule handleResponse_no_image)
    moreover have "\<forall>q\<in>set pre. \<not> truthy (text' q)"
      using a by (simp add: not_truthy)
    then have "textOrFailure r
           = Inl (Error (''API returned a text response instead of an image: '' @ t))"
      using a sp by (intro textOrFailure_text [of r pre p post t]) simp_all
    ultimately show "fst (removeBackground e generateContent imageFile)
              = Inl (Error (''API returned a text response instead of an image: '' @ t))"
      using out by simp
  next
    fix c cs ct ps
    assume a: "candidates r = Some (c # cs) \<and> content c = Some ct \<and> parts ct = Some ps
          \<and> (\<forall>q\<in>set ps. inlineData q = None \<and> (text' q = None \<or> text' q = Some []))"
    then have sp: "scannedParts r = ps"
      using scannedParts_chain [of r c cs ct ps] by simp
    have "\<forall>q\<in>set (scannedParts r). inlineData q = None"
      using a sp by simp
    then have "handleResponse r = textOrFailure r"
      by (rule handleResponse_no_image)
    moreover have "\<forall>q\<in>set (scannedParts r). \<not> truthy (text' q)"
      using a sp by (simp add: not_truthy)
    then have "textOrFailure r
           = Inl (Error ''Failed to process the image. The API did not return an image.'')"
      by (rule textOrFailure_nothing)
    ultimately show "fst (removeBackground e generateContent imageFile)
              = Inl (Error ''Failed to process the image. The API did not return an image.'')"
      using out by simp
  next
    assume "candidates r = None \<or> candidates r = Some []
          \<or> (\<exists>c cs. candidates r = Some (c # cs)
                \<and> (content c = None \<or> (\<exists>ct. content c = Some ct \<and> parts ct = None)))"
    then have sp: "scannedParts r = []"
      by (rule scannedParts_missing)
    have "\<forall>q\<in>set (scannedParts r). inlineData q = None"
      using sp by simp
    then have "handleResponse r = textOrFailure r"
      by (rule handleResponse_no_image)
    moreover have "\<forall>q\<in>set (scannedParts r). \<not> truthy (text' q)"
      using sp by simp
    then have "textOrFailure r
           = Inl (Error ''Failed to process the image. The API did not return an image.'')"
      by (rule textOrFailure_nothing)
    ultimately show "fst (removeBackground e generateContent imageFile)
              = Inl (Error ''Failed to process the image. The API did not return an image.'')"
      using out by simp
  qed
qed

lemma truthy_withKey: "truthy (API_KEY withKey)"
  by (simp add: withKey_def truthy_def)

theorem removeBackground_response_cases_witness:
  "fst (removeBackground withKey (respond [textPart ''hello'', imagePart ''AAA'']) sampleFile)
     = Inr (Some ''AAA'')
   \<and> fst (removeBackground withKey (respond [textPart [], textPart ''no'']) sampleFile)
     = Inl (Error ''API returned a text response instead of an image: no'')
   \<and> fst (removeBackground withKey (respond [textPart []]) sampleFile)
     = Inl (Error ''Failed to process the image. The API did not return an image.'')
   \<and> fst (removeBackground withKey (resolveWith \<lparr>candidates = Some []\<rparr>) sampleFile)
     = Inl (Error ''Failed to process the image. The API did not return an image.'')"
proof (intro conjI)
  let ?req = "generateContentRequest sampleFile"
  let ?b = "\<lparr>data = Some ''AAA'', mimeType = Some ''image/png''\<rparr>"
  let ?ps = "[textPart ''hello'', imagePart ''AAA'']"
  let ?ct = "\<lparr>parts = Some ?ps\<rparr>"
  let ?c = "\<lparr>content = Some ?ct\<rparr>"
  let ?r = "\<lparr>candidates = Some [?c]\<rparr>"
  have r: "respond ?ps ?req = Inr ?r"
    by (simp add: respond_def)
  have h: "candidates ?r = Some (?c # []) \<and> content ?c = Some ?ct \<and> parts ?ct = Some ?ps
      \<and> ?ps = [textPart ''hello''] @ imagePart ''AAA'' # []
      \<and> (\<forall>q\<in>set [textPart ''hello'']. inlineData q = None)
      \<and> inlineData (imagePart ''AAA'') = Some ?b"
    by (simp add: textPart_def imagePart_def)
  note T = removeBackground_response_cases [of withKey "respond ?ps" sampleFile ?r,
     OF truthy_withKey r]
  from T [THEN conjunct1, rule_format, OF h]
  show "fst (removeBackground withKey (respond ?ps) sampleFile) = Inr (Some ''AAA'')"
    by simp
next
  let ?req = "generateContentRequest sampleFile"
  let ?ps = "[textPart [], textPart ''no'']"
  let ?ct = "\<lparr>parts = Some ?ps\<rparr>"
  let ?c = "\<lparr>content = Some ?ct\<rparr>"
  let ?r = "\<lparr>candidates = Some [?c]\<rparr>"
  have r: "respond ?ps ?req = Inr ?r"
    by (simp add: respond_def)
  have h: "candidates ?r = Some (?c # []) \<and> content ?c = Some ?ct \<and> parts ?ct = Some ?ps
      \<and> (\<forall>q\<in>set ?ps. inlineData q = None)
      \<and> ?ps = [textPart []] @ textPart ''no'' # []
      \<and> (\<forall>q\<in>set [textPart []]. text' q = None \<or> text' q = Some [])
      \<and> text' (textPart ''no'') = Some ''no'' \<and> ''no'' \<noteq> []"
    by (simp add: textPart_def)
  note T = removeBackground_response_cases [of withKey "respond ?ps" sampleFile ?r,
     OF truthy_withKey r]
  from T [THEN conjunct2, THEN conjunct1, rule_format, OF h]
  show "fst (removeBackground withKey (respond ?ps) sampleFile)
     = Inl (Error ''API returned a text response instead of an image: no'')"
    by simp
next
  let ?req = "generateContentRequest sampleFile"
  let ?ps = "[textPart []]"
  let ?ct = "\<lparr>parts = Some ?ps\<rparr>"
  let ?c = "\<lparr>content = Some ?ct\<rparr>"
  let ?r = "\<lparr>candidates = Some [?c]\<rparr>"
  have r: "respond ?ps ?req = Inr ?r"
    by (simp add: respond_def)
  have h: "candidates ?r = Some (?c # []) \<and> content ?c = Some ?ct \<and> parts ?ct = Some ?ps
      \<and> (\<forall>q\<in>set ?ps. inlineData q = None \<and> (text' q = None \<or> text' q = Some []))"
    by (simp add: textPart_def)
  note T = removeBackground_response_cases [of withKey "respond ?ps" sampleFile ?r,
     OF truthy_withKey r]
  from T [THEN conjunct2, THEN conjunct2, THEN conjunct1, rule_format, OF h]
  show "fst (removeBackground withKey (respond ?ps) sampleFile)
     = Inl (Error ''Failed to process the image. The API did not return an image.'')"
    by blast
next
  let ?req = "generateContentRequest sampleFile"
  let ?r = "\<lparr>candidates = Some []\<rparr>"
  have r: "resolveWith ?r ?req = Inr ?r"
    by (simp add: resolveWith_def)
  note T = removeBackground_response_cases [of withKey "resolveWith ?r" sampleFile ?r,
     OF truthy_withKey r]
  from T [THEN conjunct2, THEN conjunct2, THEN conjunct2]
  show "fst (removeBackground withKey (resolveWith ?r) sampleFile)
     = Inl (Error ''Failed to process the image. The API did not return an image.'')"
    by simp
qed

text \<open>
  C10. Reading the response never fails for want of a field. When the response has no
  candidate list, an empty one, a first candidate without content, a content without
  parts, or parts none of which has inline data or a text other than the empty
  string, the call rejects with the generic error: an empty text counts as no text.
\<close>

theorem removeBackground_degenerate_response:
  assumes key: "truthy (API_KEY e)"
    and resp: "generateContent (generateContentRequest imageFile) = Inr r"
    and shape:
      "candidates r = None
       \<or> candidates r = Some []
       \<or> (\<exists>c cs. candidates r = Some (c # cs)
             \<and> (content c = None
                \<or> (\<exists>ct. content c = Some ct
                      \<and> (parts ct = None
                         \<or> (\<exists>ps. parts ct = Some ps
                               \<and> (\<forall>p\<in>set ps. inlineData p = None
                                     \<and> (text' p = None \<or> text' p = Some '''')))))))"
  shows "fst (removeBackground e generateContent imageFile)
           = Inl (Error ''Failed to process the image. The API did not return an image.'')"
proof -
  have bare: "\<forall>q\<in>set (scannedParts r). inlineData q = None \<and> \<not> truthy (text' q)"
    using shape
    by (fastforce simp: scannedParts_def firstCandidateParts_def truthy_def
        split: option.splits)
  have no_image: "\<forall>q\<in>set (scannedParts r). inlineData q = None"
    using bare by blast
  have no_text: "\<forall>q\<in>set (scannedParts r). \<not> truthy (text' q)"
    using bare by blast
  have "handleResponse r = textOrFailure r"
    using no_image by (rule handleResponse_no_image)
  also have "\<dots> = Inl (Error ''Failed to process the image. The API did not return an image.'')"
    using no_text by (rule textOrFailure_nothing)
  finally show ?thesis
    using key resp by (simp add: removeBackground_with_response)
qed

theorem removeBackground_degenerate_response_witness:
  "fst (removeBackground withKey (resolveWith \<lparr>candidates = None\<rparr>) sampleFile)
     = Inl (Error ''Failed to process the image. The API did not return an image.'')
   \<and> fst (removeBackground withKey (resolveWith \<lparr>candidates = Some [\<lparr>content = None\<rparr>]\<rparr>) sampleFile)
     = Inl (Error ''Failed to process the image. The API did not return an image.'')
   \<and> fst (removeBackground withKey (respond [textPart '''']) sampleFile)
     = Inl (Error ''Failed to process the image. The API did not return an image.'')"
proof (intro conjI)
  let ?req = "generateContentRequest sampleFile"
  have r: "resolveWith \<lparr>candidates = None\<rparr> ?req = Inr \<lparr>candidates = None\<rparr>"
    by (simp add: resolveWith_def)
  show "fst (removeBackground withKey (resolveWith \<lparr>candidates = None\<rparr>) sampleFile)
     = Inl (Error ''Failed to process the image. The API did not return an image.'')"
    using removeBackground_degenerate_response
      [of withKey "resolveWith \<lparr>candidates = None\<rparr>" sampleFile "\<lparr>candidates = None\<rparr>",
       OF truthy_withKey r]
    by simp
next
  let ?req = "generateContentRequest sampleFile"
  let ?r = "\<lparr>candidates = Some [\<lparr>content = None\<rparr>]\<rparr>"
  have r: "resolveWith ?r ?req = Inr ?r"
    by (simp add: resolveWith_def)
  show "fst (removeBackground withKey (resolveWith ?r) sampleFile)
     = Inl (Error ''Failed to process the image. The API did not return an image.'')"
    using removeBackground_degenerate_response
      [of withKey "resolveWith ?r" sampleFile ?r, OF truthy_withKey r]
    by simp
next
  let ?req = "generateContentRequest sampleFile"
  let ?r = "\<lparr>candidates = Some [\<lparr>content = Some \<lparr>parts = Some [textPart '''']\<rparr>\<rparr>]\<rparr>"
  have r: "respond [textPart ''''] ?req = Inr ?r"
    by (simp add: respond_def)
  show "fst (removeBackground withKey (respond [textPart '''']) sampleFile)
     = Inl (Error ''Failed to process the image. The API did not return an image.'')"
    using removeBackground_degenerate_response
      [of withKey "respond [textPart '''']" sampleFile ?r, OF truthy_withKey r]
    by (simp add: textPart_def)
qed

section \<open>Properties of the controller\<close>

lemma run_Nil: "run [] s = s"
  by (simp add: run_def)

lemma run_Cons: "run (x # xs) s = run xs (perform x s)"
  by (simp add: run_def)

lemma run_append: "run (xs @ ys) s = run ys (run xs s)"
  by (simp add: run_def)

lemma run_processFile_begin:
  "run (processFile_begin f url) s =
     \<lparr>originalFile = Some f, originalImageUrl = Some url, processedImageUrl = None,
      appState = loading, errorMessage = ''''\<rparr>"
  by (simp add: processFile_begin_def run_Cons run_Nil)

lemma run_processFile_resolved:
  "run (processFile_settled (Inr d)) s =
     s\<lparr>processedImageUrl := Some (''data:image/png;base64,'' @ interpolate d),
       appState := result\<rparr>"
  by (simp add: processFile_settled_def run_Cons run_Nil)

lemma run_processFile_rejected:
  "run (processFile_settled (Inl err)) s =
     s\<lparr>errorMessage :=
          (case err of Error m \<Rightarrow> m
           | NonError v \<Rightarrow> ''An unknown error occurred. Please try again.''),
       appState := error\<rparr>"
  by (simp add: processFile_settled_def run_Cons run_Nil)

lemma run_handleReset:
  "run (handleReset s0) s = initialSession"
  by (simp add: handleReset_def initialSession_def run_Cons run_Nil run_append
      split: option.splits)

text \<open>
  C7. The statements of \<open>processFile\<close> up to the call of the API client leave the
  session loading, with no processed image, an empty error text, the submitted file
  and its preview URL; the call is then in flight and not yet settled.
\<close>

theorem processFile_begin_loading:
  "appState (run (processFile_begin f url) s) = loading
   \<and> processedImageUrl (run (processFile_begin f url) s) = None
   \<and> errorMessage (run (processFile_begin f url) s) = ''''
   \<and> originalFile (run (processFile_begin f url) s) = Some f
   \<and> originalImageUrl (run (processFile_begin f url) s) = Some url
   \<and> pending (submit (Some f) url c) = Some f
   \<and> sess (submit (Some f) url c) = run (processFile_begin f url) (sess c)"
  by (simp add: run_processFile_begin submit_def)

text \<open>
  C5. \<open>handleReset\<close>, from any session (and whatever session it was rendered in),
  leaves the state initial, the file, the preview URL and the processed image null,
  and the error text empty.
\<close>

theorem handleReset_clears:
  "run (handleReset s0) s =
     \<lparr>originalFile = None, originalImageUrl = None, processedImageUrl = None,
      appState = initial, errorMessage = ''''\<rparr>"
  using run_handleReset [of s0 s] by (simp add: initialSession_def)

text \<open>
  C6 (amended). When the API client rejects, \<open>processFile\<close> ends in the error state.
  The error text is the message of the thrown value when that value is an \<open>Error\<close>,
  also when the message is empty; it is the fixed fallback text when the thrown value
  is not an \<open>Error\<close>, also when that value has a message of its own.
\<close>

theorem processFile_rejection_message:
  assumes "fst (removeBackground e generateContent f) = Inl err"
  shows "appState (run (processFile e generateContent f url) s) = error
         \<and> errorMessage (run (processFile e generateContent f url) s)
             = (case err of
                  Error m \<Rightarrow> m
                | NonError v \<Rightarrow> ''An unknown error occurred. Please try again.'')"
  using assms by (simp add: processFile_def run_append run_processFile_rejected)

theorem processFile_rejection_message_witness:
  "errorMessage (run (processFile noKey (respond []) sampleFile ''blob:1'') initialSession)
     = ''API_KEY environment variable is not set.''
   \<and> errorMessage
        (run (processFile withKey (rejectWith (Error ''quota exceeded'')) sampleFile ''blob:1'')
           initialSession)
     = ''quota exceeded''
   \<and> errorMessage
        (run (processFile withKey (rejectWith (NonError None)) sampleFile ''blob:1'')
           initialSession)
     = ''An unknown error occurred. Please try again.''"
proof (intro conjI)
  have "fst (removeBackground noKey (respond []) sampleFile)
          = Inl (Error ''API_KEY environment variable is not set.'')"
    by (simp add: removeBackground_def noKey_def truthy_def)
  from processFile_rejection_message [OF this, of "''blob:1''" initialSession]
  show "errorMessage (run (processFile noKey (respond []) sampleFile ''blob:1'') initialSession)
     = ''API_KEY environment variable is not set.''"
    by simp
next
  have "fst (removeBackground withKey (rejectWith (Error ''quota exceeded'')) sampleFile)
          = Inl (Error ''quota exceeded'')"
    by (simp add: removeBackground_def withKey_def truthy_def rejectWith_def)
  from processFile_rejection_message [OF this, of "''blob:1''" initialSession]
  show "errorMessage
        (run (processFile withKey (rejectWith (Error ''quota exceeded'')) sampleFile ''blob:1'')
           initialSession)
     = ''quota exceeded''"
    by simp
next
  have "fst (removeBackground withKey (rejectWith (NonError None)) sampleFile)
          = Inl (NonError None)"
    by (simp add: removeBackground_def withKey_def truthy_def rejectWith_def)
  from processFile_rejection_message [OF this, of "''blob:1''" initialSession]
  show "errorMessage
        (run (processFile withKey (rejectWith (NonError None)) sampleFile ''blob:1'')
           initialSession)
     = ''An unknown error occurred. Please try again.''"
    by simp
qed

text \<open>
  The claim as first stated fails in both directions. A rejection with an \<open>Error\<close> whose
  message is empty carries no message text, yet the error text is that empty message
  and not the fallback. A rejection with a value that is not an \<open>Error\<close> but has the
  message \<open>boom\<close> gets the fallback, not its own message.
\<close>

theorem processFile_rejection_message_counterexample:
  "errorMessage
     (run (processFile withKey (rejectWith (Error '''')) sampleFile ''blob:1'') initialSession)
     = ''''
   \<and> errorMessage
     (run (processFile withKey (rejectWith (Error '''')) sampleFile ''blob:1'') initialSession)
     \<noteq> ''An unknown error occurred. Please try again.''
   \<and> errorMessage
     (run (processFile withKey (rejectWith (NonError (Some ''boom''))) sampleFile ''blob:1'')
        initialSession)
     = ''An unknown error occurred. Please try again.''
   \<and> errorMessage
     (run (processFile withKey (rejectWith (NonError (Some ''boom''))) sampleFile ''blob:1'')
        initialSession)
     \<noteq> ''boom''"
  by (simp add: processFile_def run_append run_processFile_rejected
      removeBackground_def withKey_def truthy_def rejectWith_def)

text \<open>
  C9. The \<open>catch\<close> block assigns the error text and the state and nothing else: the
  file and the preview URL are what they were, so after a submission they are still
  the submitted file and its URL.
\<close>

theorem processFile_rejection_frame:
  "run (processFile_settled (Inl err)) s
     = s\<lparr>errorMessage :=
            (case err of
               Error m \<Rightarrow> m
             | NonError v \<Rightarrow> ''An unknown error occurred. Please try again.''),
         appState := error\<rparr>
   \<and> originalFile (run (processFile_settled (Inl err)) s) = originalFile s
   \<and> originalImageUrl (run (processFile_settled (Inl err)) s) = originalImageUrl s
   \<and> originalFile (run (processFile_settled (Inl err)) (run (processFile_begin f url) s0)) = Some f
   \<and> originalImageUrl (run (processFile_settled (Inl err)) (run (processFile_begin f url) s0))
       = Some url"
  by (simp add: run_processFile_rejected run_processFile_begin)

subsection \<open>The order of states\<close>

text \<open>
  C3. For a file submitted in the initial state, the states the session passes through
  while \<open>processFile\<close> runs are initial, then loading, then result (the client
  resolved) or error (it rejected), with nothing in between; and the statement that
  sets the state to loading comes before the call of the API client, which is made in
  the loading state.
\<close>

theorem processFile_state_sequence:
  assumes "appState s = initial"
  shows "remdups_adj (map appState (trajectory s (processFile e generateContent f url)))
           = [initial, loading,
              (case fst (removeBackground e generateContent f) of
                 Inl err \<Rightarrow> error
               | Inr d \<Rightarrow> result)]
         \<and> (\<exists>before after.
               processFile e generateContent f url = before @ CallRemoveBackground f # after
               \<and> CallRemoveBackground f \<notin> set before
               \<and> SetAppState loading \<in> set before
               \<and> appState (run before s) = loading)"
proof
  show "remdups_adj (map appState (trajectory s (processFile e generateContent f url)))
           = [initial, loading,
              (case fst (removeBackground e generateContent f) of
                 Inl err \<Rightarrow> error
               | Inr d \<Rightarrow> result)]"
    using assms
    by (cases "fst (removeBackground e generateContent f)")
       (simp_all add: processFile_def processFile_begin_def processFile_settled_def)
next
  let ?before = "[SetAppState loading, SetOriginalFile (Some f), SetProcessedImageUrl None,
      SetErrorMessage '''', CreateObjectURL f url, SetOriginalImageUrl (Some url)]"
  let ?after = "processFile_settled (fst (removeBackground e generateContent f))"
  have "processFile e generateContent f url = ?before @ CallRemoveBackground f # ?after"
    by (simp add: processFile_def processFile_begin_def)
  moreover have "CallRemoveBackground f \<notin> set ?before"
    by simp
  moreover have "SetAppState loading \<in> set ?before"
    by simp
  moreover have "appState (run ?before s) = loading"
    by (simp add: run_Cons run_Nil)
  ultimately show "\<exists>before after.
               processFile e generateContent f url = before @ CallRemoveBackground f # after
               \<and> CallRemoveBackground f \<notin> set before
               \<and> SetAppState loading \<in> set before
               \<and> appState (run before s) = loading"
    by blast
qed

theorem processFile_state_sequence_witness:
  "appState initialSession = initial
   \<and> remdups_adj (map appState
        (trajectory initialSession (processFile withKey (respond [imagePart ''AAA'']) sampleFile ''blob:1'')))
       = [initial, loading, result]
   \<and> remdups_adj (map appState
        (trajectory initialSession (processFile noKey (respond [imagePart ''AAA'']) sampleFile ''blob:1'')))
       = [initial, loading, error]"
proof -
  have h: "appState initialSession = initial"
    by (simp add: initialSession_def)
  have ok: "fst (removeBackground withKey (respond [imagePart ''AAA'']) sampleFile) = Inr (Some ''AAA'')"
    by (simp add: removeBackground_def withKey_def truthy_def respond_def handleResponse_def
        imageResponsePart_def firstCandidateParts_def imagePart_def)
  have ko: "fst (removeBackground noKey (respond [imagePart ''AAA'']) sampleFile)
              = Inl (Error ''API_KEY environment variable is not set.'')"
    by (simp add: removeBackground_def noKey_def truthy_def)
  show ?thesis
    using h
      processFile_state_sequence [OF h, of withKey "respond [imagePart ''AAA'']" sampleFile "''blob:1''"]
      processFile_state_sequence [OF h, of noKey "respond [imagePart ''AAA'']" sampleFile "''blob:1''"]
    by (simp add: ok ko)
qed

subsection \<open>The download name\<close>

lemma lastIndexOf_absent: "c \<notin> set xs \<Longrightarrow> lastIndexOf c xs = -1"
  by (induction xs) (auto simp: Let_def)

lemma lastIndexOf_last:
  "c \<notin> set ext \<Longrightarrow> lastIndexOf c (base @ c # ext) = int (length base)"
  by (induction base) (auto simp: Let_def lastIndexOf_absent)

lemma substring_prefix: "substring (base @ rest) 0 (int (length base)) = base"
  by (simp add: substring_def Let_def min_def max_def)

lemma downloadImage_dotted:
  assumes "CHR ''.'' \<notin> set ext"
  shows "download (downloadImage processed (Some (base @ ''.'' @ ext)))
           = (if base = [] then ''image'' else base) @ ''_no_bg.png''"
proof -
  have "lastIndexOf CHR ''.'' (base @ ''.'' @ ext) = int (length base)"
    using assms lastIndexOf_last [of "CHR ''.''" ext base] by simp
  then have "substring (base @ ''.'' @ ext) 0 (lastIndexOf CHR ''.'' (base @ ''.'' @ ext)) = base"
    using substring_prefix [of base "''.'' @ ext"] by simp
  then show ?thesis
    by (simp add: downloadImage_def orElse_def Let_def)
qed

lemma downloadImage_undotted:
  assumes "CHR ''.'' \<notin> set n"
  shows "download (downloadImage processed (Some n)) = ''image_no_bg.png''"
  using assms
  by (simp add: downloadImage_def orElse_def Let_def lastIndexOf_absent substring_def)

text \<open>
  C8 (amended). The download is named after the part of the original file's name
  before its last dot, followed by \<open>_no_bg.png\<close>, when the name has a dot and that
  part is not empty. In every other case the default \<open>image\<close> takes the place of that
  part: when there is no original file, when its name has no dot, and when nothing
  stands before the last dot. Every name falls under one of these cases.
\<close>

theorem downloadImage_name:
  "(originalFile s = None \<longrightarrow>
      download (downloadImage processed (fileName s)) = ''image_no_bg.png'')
   \<and> (\<forall>f. originalFile s = Some f \<and> CHR ''.'' \<notin> set (name f) \<longrightarrow>
        download (downloadImage processed (fileName s)) = ''image_no_bg.png'')
   \<and> (\<forall>f base ext.
        originalFile s = Some f \<and> name f = base @ ''.'' @ ext \<and> CHR ''.'' \<notin> set ext \<longrightarrow>
        download (downloadImage processed (fileName s))
          = (if base = [] then ''image'' else base) @ ''_no_bg.png'')
   \<and> (\<forall>f. originalFile s = Some f \<and> CHR ''.'' \<in> set (name f) \<longrightarrow>
        (\<exists>base ext. name f = base @ ''.'' @ ext \<and> CHR ''.'' \<notin> set ext))"
proof (intro conjI allI impI)
  assume "originalFile s = None"
  then show "download (downloadImage processed (fileName s)) = ''image_no_bg.png''"
    by (simp add: fileName_def downloadImage_def orElse_def)
next
  fix f
  assume a: "originalFile s = Some f \<and> CHR ''.'' \<notin> set (name f)"
  then have "fileName s = Some (name f)"
    by (simp add: fileName_def)
  then show "download (downloadImage processed (fileName s)) = ''image_no_bg.png''"
    using a downloadImage_undotted [of "name f" processed] by simp
next
  fix f base ext
  assume a: "originalFile s = Some f \<and> name f = base @ ''.'' @ ext \<and> CHR ''.'' \<notin> set ext"
  then have "fileName s = Some (base @ ''.'' @ ext)"
    by (simp add: fileName_def)
  then show "download (downloadImage processed (fileName s))
          = (if base = [] then ''image'' else base) @ ''_no_bg.png''"
    using a downloadImage_dotted [of ext processed base] by simp
next
  fix f
  assume "originalFile s = Some f \<and> CHR ''.'' \<in> set (name f)"
  then obtain base ext where "name f = base @ CHR ''.'' # ext" and "CHR ''.'' \<notin> set ext"
    using split_list_last [of "CHR ''.''" "name f"] by blast
  then show "\<exists>base ext. name f = base @ ''.'' @ ext \<and> CHR ''.'' \<notin> set ext"
    by auto
qed

theorem downloadImage_name_witness:
  "download (downloadImage ''data:image/png;base64,AAA'' (fileName initialSession))
     = ''image_no_bg.png''
   \<and> download (downloadImage ''data:image/png;base64,AAA''
        (fileName (initialSession\<lparr>originalFile := Some sampleFile\<rparr>)))
     = ''photo_no_bg.png''
   \<and> download (downloadImage ''data:image/png;base64,AAA''
        (fileName (initialSession\<lparr>originalFile := Some (sampleFile\<lparr>name := ''noext''\<rparr>)\<rparr>)))
     = ''image_no_bg.png''"
proof (intro conjI)
  have "originalFile initialSession = None"
    by (simp add: initialSession_def)
  with downloadImage_name [of initialSession "''data:image/png;base64,AAA''"]
  show "download (downloadImage ''data:image/png;base64,AAA'' (fileName initialSession))
     = ''image_no_bg.png''"
    by blast
next
  let ?s = "initialSession\<lparr>originalFile := Some sampleFile\<rparr>"
  have h: "originalFile ?s = Some sampleFile \<and> name sampleFile = ''photo'' @ ''.'' @ ''jpg''
          \<and> CHR ''.'' \<notin> set ''jpg''"
    by (simp add: sampleFile_def)
  from downloadImage_name [of ?s "''data:image/png;base64,AAA''",
      THEN conjunct2, THEN conjunct2, THEN conjunct1, rule_format, OF h]
  show "download (downloadImage ''data:image/png;base64,AAA'' (fileName ?s))
     = ''photo_no_bg.png''"
    by simp
next
  let ?f = "sampleFile\<lparr>name := ''noext''\<rparr>"
  let ?s = "initialSession\<lparr>originalFile := Some ?f\<rparr>"
  have h: "originalFile ?s = Some ?f \<and> CHR ''.'' \<notin> set (name ?f)"
    by simp
  from downloadImage_name [of ?s "''data:image/png;base64,AAA''",
      THEN conjunct2, THEN conjunct1, rule_format, OF h]
  show "download (downloadImage ''data:image/png;base64,AAA'' (fileName ?s))
     = ''image_no_bg.png''"
    by simp
qed

text \<open>
  The claim as first stated fails for a name that starts with its only dot: the name is
  available, the part before its last dot is empty, and the download is not the
  suffix alone. It fails for a name without a dot as well: the name is available and
  the download does not begin with it.
\<close>

theorem downloadImage_name_counterexample:
  "download (downloadImage ''data:image/png;base64,AAA'' (Some ''.png'')) = ''image_no_bg.png''
   \<and> download (downloadImage ''data:image/png;base64,AAA'' (Some ''.png''))
       \<noteq> '''' @ ''_no_bg.png''
   \<and> download (downloadImage ''data:image/png;base64,AAA'' (Some ''noext'')) = ''image_no_bg.png''
   \<and> download (downloadImage ''data:image/png;base64,AAA'' (Some ''noext''))
       \<noteq> ''noext'' @ ''_no_bg.png''"
  by (simp add: downloadImage_def orElse_def substring_def Let_def)

subsection \<open>The session between events\<close>

lemma execute_Nil: "execute [] = initialConfig"
  by (simp add: execute_def)

lemma execute_snoc: "execute (evs @ [ev]) = handle (execute evs) ev"
  by (simp add: execute_def)

lemma consistent_initial: "consistent initialConfig"
  by (simp add: consistent_def initialConfig_def initialSession_def)

lemma consistent_submit:
  "consistent c \<Longrightarrow> consistent (submit chosen url c)"
  by (cases chosen) (simp_all add: submit_def consistent_def run_processFile_begin)

lemma consistent_reset:
  assumes "consistent c"
    and "renderContent (sess c) = ResultView \<or> renderContent (sess c) = ErrorView"
  shows "consistent (c\<lparr>sess := run (handleReset (sess c)) (sess c)\<rparr>)"
proof -
  have "appState (sess c) \<noteq> loading"
    using assms(2) by (auto simp: renderContent_def)
  then have "pending c = None"
    using assms(1) by (auto simp: consistent_def)
  then show ?thesis
    by (simp add: consistent_def run_handleReset initialSession_def)
qed

lemma consistent_settle:
  assumes "consistent c" and "pending c = Some f"
  shows "consistent \<lparr>sess = run (processFile_settled outcome) (sess c), pending = None\<rparr>"
proof -
  have "appState (sess c) = loading"
    using assms by (simp add: consistent_def)
  then have "originalFile (sess c) \<noteq> None \<and> originalImageUrl (sess c) \<noteq> None
      \<and> processedImageUrl (sess c) = None"
    using assms(1) by (simp add: consistent_def)
  then show ?thesis
    by (cases outcome)
       (simp_all add: consistent_def run_processFile_rejected run_processFile_resolved)
qed

lemma consistent_handle:
  assumes "consistent c"
  shows "consistent (handle c ev)"
proof (cases ev)
  case (FileChange files0 url)
  then show ?thesis
    using assms by (simp add: consistent_submit)
next
  case (Drop files0 url)
  then show ?thesis
    using assms by (simp add: consistent_submit)
next
  case ClickReset
  then show ?thesis
    using assms consistent_reset [of c] by auto
next
  case (Settle e generateContent)
  then show ?thesis
    using assms by (auto simp: consistent_settle split: option.splits)
qed

lemma consistent_execute: "consistent (execute evs)"
  by (induction evs rule: rev_induct)
     (simp_all add: execute_Nil execute_snoc consistent_initial consistent_handle)

lemma handleResponse_message:
  assumes "handleResponse r = Inl (Error m)"
  shows "m \<noteq> []"
  using assms
  by (auto simp: handleResponse_def textOrFailure_def split: option.splits if_splits)

lemma removeBackground_empty_message:
  "(fst (removeBackground e generateContent f) = Inl (Error []))
     = (truthy (API_KEY e) \<and> generateContent (generateContentRequest f) = Inl (Error []))"
proof (cases "truthy (API_KEY e)")
  case False
  then show ?thesis
    by (simp add: removeBackground_def)
next
  case True
  show ?thesis
  proof (cases "generateContent (generateContentRequest f)")
    case (Inl err)
    then show ?thesis
      using True by (simp add: removeBackground_def)
  next
    case (Inr r)
    then show ?thesis
      using True handleResponse_message [of r "[]"] by (auto simp: removeBackground_def)
  qed
qed

lemma settled_error_text:
  assumes "appState (run (processFile_settled (fst (removeBackground e generateContent f))) s) = error"
  shows "(errorMessage (run (processFile_settled (fst (removeBackground e generateContent f))) s) = [])
         = (truthy (API_KEY e) \<and> generateContent (generateContentRequest f) = Inl (Error []))"
proof (cases "fst (removeBackground e generateContent f)")
  case (Inr d)
  then show ?thesis
    using assms by (simp add: run_processFile_resolved)
next
  case (Inl err)
  show ?thesis
  proof (cases err)
    case (Error m)
    then have "(errorMessage (run (processFile_settled (fst (removeBackground e generateContent f))) s) = [])
        = (fst (removeBackground e generateContent f) = Inl (Error []))"
      using Inl by (simp add: run_processFile_rejected)
    then show ?thesis
      by (simp add: removeBackground_empty_message)
  next
    case (NonError v)
    then have "fst (removeBackground e generateContent f) \<noteq> Inl (Error [])"
      using Inl by simp
    then show ?thesis
      using Inl NonError
      by (simp add: run_processFile_rejected removeBackground_empty_message [symmetric])
  qed
qed

lemma error_entered:
  assumes "appState (sess (handle c ev)) = error"
  shows "handle c ev = c
         \<or> (\<exists>e generateContent f. ev = Settle e generateContent \<and> pending c = Some f)"
proof (cases ev)
  case (FileChange files0 url)
  then show ?thesis
    using assms
    by (cases files0)
       (auto simp: submit_def handleFileChange_def run_processFile_begin split: if_splits)
next
  case (Drop files0 url)
  then show ?thesis
    using assms
    by (cases "handleDrop files0")
       (auto simp: submit_def run_processFile_begin split: if_splits)
next
  case ClickReset
  then show ?thesis
    using assms
    by (auto simp: run_handleReset initialSession_def split: if_splits)
next
  case (Settle e generateContent)
  then show ?thesis
    by (cases "pending c") simp_all
qed

lemma empty_text_cause:
  "appState (sess (execute evs)) = error \<Longrightarrow> errorMessage (sess (execute evs)) = [] \<Longrightarrow>
   \<exists>before e generateContent f after.
      evs = before @ Settle e generateContent # after
      \<and> pending (execute before) = Some f
      \<and> truthy (API_KEY e)
      \<and> generateContent (generateContentRequest f) = Inl (Error [])
      \<and> execute evs = handle (execute before) (Settle e generateContent)"
proof (induction evs rule: rev_induct)
  case Nil
  then show ?case
    by (simp add: execute_Nil initialConfig_def initialSession_def)
next
  case (snoc ev evs)
  have st: "appState (sess (handle (execute evs) ev)) = error"
    using snoc.prems(1) by (simp add: execute_snoc)
  have tx: "errorMessage (sess (handle (execute evs) ev)) = []"
    using snoc.prems(2) by (simp add: execute_snoc)
  from error_entered [OF st] show ?case
  proof
    assume same: "handle (execute evs) ev = execute evs"
    then have "appState (sess (execute evs)) = error" and "errorMessage (sess (execute evs)) = []"
      using st tx by simp_all
    from snoc.IH [OF this]
    obtain before e generateContent f after where
      d: "evs = before @ Settle e generateContent # after"
        "pending (execute before) = Some f"
        "truthy (API_KEY e)"
        "generateContent (generateContentRequest f) = Inl (Error [])"
        "execute evs = handle (execute before) (Settle e generateContent)"
      by blast
    have "evs @ [ev] = before @ Settle e generateContent # (after @ [ev])"
      using d(1) by simp
    moreover have "execute (evs @ [ev]) = handle (execute before) (Settle e generateContent)"
      using same d(5) by (simp add: execute_snoc)
    ultimately show ?thesis
      using d(2,3,4) by blast
  next
    assume "\<exists>e generateContent f. ev = Settle e generateContent \<and> pending (execute evs) = Some f"
    then obtain e generateContent f where
      ev: "ev = Settle e generateContent" and pe: "pending (execute evs) = Some f"
      by blast
    let ?s = "run (processFile_settled (fst (removeBackground e generateContent f)))
                (sess (execute evs))"
    have "appState ?s = error" and "errorMessage ?s = []"
      using st tx ev pe by simp_all
    then have "truthy (API_KEY e) \<and> generateContent (generateContentRequest f) = Inl (Error [])"
      using settled_error_text [of e generateContent f "sess (execute evs)"] by simp
    moreover have "evs @ [ev] = evs @ Settle e generateContent # []"
      using ev by simp
    moreover have "execute (evs @ [ev]) = handle (execute evs) (Settle e generateContent)"
      using ev by (simp add: execute_snoc)
    ultimately show ?thesis
      using pe by blast
  qed
qed

lemma empty_text_effect:
  assumes "pending c = Some f" and "truthy (API_KEY e)"
    and "generateContent (generateContentRequest f) = Inl (Error [])"
  shows "errorMessage (sess (handle c (Settle e generateContent))) = []"
proof -
  have "fst (removeBackground e generateContent f) = Inl (Error [])"
    using assms(2,3) by (simp add: removeBackground_empty_message)
  then show ?thesis
    using assms(1) by (simp add: run_processFile_rejected)
qed

text \<open>
  C4 (amended). After any sequence of events: in the result state the file, its
  preview URL and the processed image are all there; in the error state there is no
  processed image, and the error text is empty in one case only: the error state was
  entered by settling a call that the generation service rejected with an \<open>Error\<close>
  whose message is empty (and no later event changed anything). In every other error
  state the error text is not empty.
\<close>

theorem session_invariant:
  "(appState (sess (execute evs)) = result \<longrightarrow>
      originalFile (sess (execute evs)) \<noteq> None
      \<and> originalImageUrl (sess (execute evs)) \<noteq> None
      \<and> processedImageUrl (sess (execute evs)) \<noteq> None)
   \<and> (appState (sess (execute evs)) = error \<longrightarrow>
      processedImageUrl (sess (execute evs)) = None
      \<and> ((errorMessage (sess (execute evs)) = [])
         = (\<exists>before e generateContent f after.
              evs = before @ Settle e generateContent # after
              \<and> pending (execute before) = Some f
              \<and> truthy (API_KEY e)
              \<and> generateContent (generateContentRequest f) = Inl (Error [])
              \<and> execute evs = handle (execute before) (Settle e generateContent))))"
proof -
  have c: "consistent (execute evs)"
    by (rule consistent_execute)
  show ?thesis
  proof (intro conjI impI)
    assume "appState (sess (execute evs)) = result"
    then show "originalFile (sess (execute evs)) \<noteq> None"
      using c by (simp add: consistent_def)
  next
    assume "appState (sess (execute evs)) = result"
    then show "originalImageUrl (sess (execute evs)) \<noteq> None"
      using c by (simp add: consistent_def)
  next
    assume "appState (sess (execute evs)) = result"
    then show "processedImageUrl (sess (execute evs)) \<noteq> None"
      using c by (simp add: consistent_def)
  next
    assume "appState (sess (execute evs)) = error"
    then show "processedImageUrl (sess (execute evs)) = None"
      using c by (simp add: consistent_def)
  next
    assume err: "appState (sess (execute evs)) = error"
    show "(errorMessage (sess (execute evs)) = [])
           = (\<exists>before e generateContent f after.
                evs = before @ Settle e generateContent # after
                \<and> pending (execute before) = Some f
                \<and> truthy (API_KEY e)
                \<and> generateContent (generateContentRequest f) = Inl (Error [])
                \<and> execute evs = handle (execute before) (Settle e generateContent))"
    proof
      assume "errorMessage (sess (execute evs)) = []"
      with err show "\<exists>before e generateContent f after.
                evs = before @ Settle e generateContent # after
                \<and> pending (execute before) = Some f
                \<and> truthy (API_KEY e)
                \<and> generateContent (generateContentRequest f) = Inl (Error [])
                \<and> execute evs = handle (execute before) (Settle e generateContent)"
        by (rule empty_text_cause)
    next
      assume "\<exists>before e generateContent f after.
                evs = before @ Settle e generateContent # after
                \<and> pending (execute before) = Some f
                \<and> truthy (API_KEY e)
                \<and> generateContent (generateContentRequest f) = Inl (Error [])
                \<and> execute evs = handle (execute before) (Settle e generateContent)"
      then obtain before e generateContent f where
        "pending (execute before) = Some f" and "truthy (API_KEY e)"
        and "generateContent (generateContentRequest f) = Inl (Error [])"
        and "execute evs = handle (execute before) (Settle e generateContent)"
        by blast
      then show "errorMessage (sess (execute evs)) = []"
        using empty_text_effect [of "execute before" f e generateContent] by simp
    qed
  qed
qed

theorem session_invariant_witness:
  "originalFile (sess (execute
      [FileChange (Some sampleFile) ''blob:1'', Settle withKey (respond [imagePart ''AAA''])])) \<noteq> None
   \<and> processedImageUrl (sess (execute
      [FileChange (Some sampleFile) ''blob:1'', Settle withKey (respond [imagePart ''AAA''])])) \<noteq> None
   \<and> processedImageUrl (sess (execute
      [FileChange (Some sampleFile) ''blob:1'', Settle withKey (respond [textPart ''no''])])) = None
   \<and> errorMessage (sess (execute
      [FileChange (Some sampleFile) ''blob:1'', Settle withKey (respond [textPart ''no''])])) \<noteq> []"
proof -
  let ?ok = "[FileChange (Some sampleFile) ''blob:1'', Settle withKey (respond [imagePart ''AAA''])]"
  let ?ko = "[FileChange (Some sampleFile) ''blob:1'', Settle withKey (respond [textPart ''no''])]"
  have 1: "appState (sess (execute ?ok)) = result"
    by (simp add: execute_def initialConfig_def initialSession_def renderContent_def
        submit_def handleFileChange_def run_processFile_begin run_processFile_resolved
        removeBackground_def withKey_def truthy_def respond_def handleResponse_def
        imageResponsePart_def firstCandidateParts_def imagePart_def)
  have 2: "appState (sess (execute ?ko)) = error"
    by (simp add: execute_def initialConfig_def initialSession_def renderContent_def
        submit_def handleFileChange_def run_processFile_begin run_processFile_rejected
        removeBackground_def withKey_def truthy_def respond_def handleResponse_def
        imageResponsePart_def textResponsePart_def textOrFailure_def
        firstCandidateParts_def textPart_def)
  have 3: "\<not> (\<exists>before e generateContent f after.
              ?ko = before @ Settle e generateContent # after
              \<and> pending (execute before) = Some f
              \<and> truthy (API_KEY e)
              \<and> generateContent (generateContentRequest f) = Inl (Error [])
              \<and> execute ?ko = handle (execute before) (Settle e generateContent))"
    by (auto simp: Cons_eq_append_conv respond_def)
  show ?thesis
    using 1 2 3 session_invariant [of ?ok] session_invariant [of ?ko] by blast
qed

text \<open>
  The claim as first stated fails when the service rejects with an \<open>Error\<close> that has
  an empty message: the session is in the error state and its error text is empty.
\<close>

theorem session_invariant_counterexample:
  "appState (sess (execute
      [FileChange (Some sampleFile) ''blob:1'', Settle withKey (rejectWith (Error ''''))])) = error
   \<and> errorMessage (sess (execute
      [FileChange (Some sampleFile) ''blob:1'', Settle withKey (rejectWith (Error ''''))])) = ''''"
  by (simp add: execute_def initialConfig_def initialSession_def renderContent_def
      submit_def handleFileChange_def run_processFile_begin run_processFile_rejected
      removeBackground_def withKey_def truthy_def rejectWith_def)

end
